theory Spec2Isabelle
  imports Main
begin

section \<open>Python values\<close>

text \<open>
  The SDK handles decoded JSON documents as untyped Python values. A dict is modelled
  by an association list read with \<open>map_of\<close>; a float by mantissa and binary exponent
  (or one of the three special values \<open>json.loads\<close> accepts), since only its truth value
  and identity matter here. Strings are byte strings: a Python \<open>str\<close> is represented
  by its UTF-8 encoding.
\<close>

datatype pyfloat = Finite int int | PosInf | NegInf | NaN

datatype json =
    JNull
  | JBool bool
  | JInt int
  | JFloat pyfloat
  | JString string
  | JArray "json list"
  | JObject "(string \<times> json) list"

text \<open>
  Every exception the modelled code can raise or let through. \<open>AetherError\<close> carries
  \<open>message\<close>, \<open>code\<close> and \<open>status\<close> as \<open>AetherError.__init__\<close> stores them
  (exceptions.py); message and code are whatever values the caller passes.
\<close>

datatype exn =
    AetherError (message: json) (code: json) (status: int)
  | AttributeError
  | KeyError
  | TypeError
  | DecodeError
  | JSONDecodeError
  | RecursionError
  | TransportError
  | HTTPStatusError int

text \<open>Python truth value testing, as used by \<open>if x:\<close> and \<open>x or y\<close>.\<close>

fun truthy :: "json \<Rightarrow> bool" where
  "truthy JNull = False"
| "truthy (JBool b) = b"
| "truthy (JInt i) = (i \<noteq> 0)"
| "truthy (JFloat (Finite m e)) = (m \<noteq> 0)"
| "truthy (JFloat f) = True"
| "truthy (JString s) = (s \<noteq> [])"
| "truthy (JArray xs) = (xs \<noteq> [])"
| "truthy (JObject kvs) = (kvs \<noteq> [])"

definition py_or :: "json \<Rightarrow> json \<Rightarrow> json" where
  "py_or x y = (if truthy x then x else y)"

text \<open>\<open>isinstance(x, dict)\<close>, \<open>k in d\<close>, \<open>d[k]\<close> and \<open>x.get(k, default)\<close>.
  Only a dict has a \<open>get\<close> attribute; on any other JSON value the attribute lookup
  raises \<open>AttributeError\<close>.\<close>

fun is_dict :: "json \<Rightarrow> bool" where
  "is_dict (JObject kvs) = True"
| "is_dict v = False"

fun py_in :: "string \<Rightarrow> json \<Rightarrow> bool" where
  "py_in k (JObject kvs) = (map_of kvs k \<noteq> None)"
| "py_in k v = False"

fun py_subscript :: "json \<Rightarrow> string \<Rightarrow> exn + json" where
  "py_subscript (JObject kvs) k = (case map_of kvs k of Some v \<Rightarrow> Inr v | None \<Rightarrow> Inl KeyError)"
| "py_subscript v k = Inl TypeError"

fun py_get :: "json \<Rightarrow> string \<Rightarrow> json \<Rightarrow> exn + json" where
  "py_get (JObject kvs) k d = Inr (case map_of kvs k of Some v \<Rightarrow> v | None \<Rightarrow> d)"
| "py_get v k d = Inl AttributeError"

text \<open>\<open>line.startswith(prefix)\<close>.\<close>

fun startswith :: "string \<Rightarrow> string \<Rightarrow> bool" where
  "startswith line [] = True"
| "startswith [] (p # ps) = False"
| "startswith (c # cs) (p # ps) = (c = p \<and> startswith cs ps)"

text \<open>\<open>str(n)\<close> for an integer, as an f-string formats it.\<close>

fun str_nat :: "nat \<Rightarrow> string" where
  "str_nat n =
     (if n < 10 then [''0123456789'' ! n]
      else str_nat (n div 10) @ [''0123456789'' ! (n mod 10)])"

declare str_nat.simps [simp del]

definition str_int :: "int \<Rightarrow> string" where
  "str_int i = (if i < 0 then ''-'' @ str_nat (nat (- i)) else str_nat (nat i))"

section \<open>Response normalisation (client.py and async client)\<close>

text \<open>
  What \<open>_handle_response\<close> reads of an \<open>httpx.Response\<close>: the status code, the reason
  phrase and the outcome of \<open>response.json()\<close>, which is \<open>None\<close> when that call raises.
  (The synchronous client also reads \<open>response.text\<close> into a variable it never uses.)
\<close>

record response =
  status_code :: int
  reason_phrase :: string
  resp_json :: "json option"

text \<open>
  Modelled from the spec: \<open>Response.is_success\<close> belongs to httpx and is not in the
  repository; section 4.1 of the specification calls it the success predicate, a 2xx
  status.
\<close>

definition is_success :: "response \<Rightarrow> bool" where
  "is_success response = (200 \<le> status_code response \<and> status_code response \<le> 299)"

text \<open>
  The expression
  \<^verbatim>\<open>parsed.get("error", {}).get(field) if isinstance(parsed, dict) else None\<close>
  of the failure branch.
\<close>

definition error_field :: "json \<Rightarrow> string \<Rightarrow> exn + json" where
  "error_field parsed field =
     (if is_dict parsed then
        (case py_get parsed ''error'' (JObject []) of
           Inl e \<Rightarrow> Inl e
         | Inr err \<Rightarrow> py_get err field JNull)
      else Inr JNull)"

text \<open>
  \<open>AetherClient._handle_response\<close>; \<open>AetherAsyncClient._handle_response\<close> has the same
  body. In the failure branch \<open>except Exception\<close> turns a failed \<open>response.json()\<close>
  into \<open>parsed = None\<close>; in the success branch a failed \<open>response.json()\<close> propagates.
\<close>

definition handle_response :: "response \<Rightarrow> exn + json" where
  "handle_response response =
     (if \<not> is_success response then
        (let parsed = (case resp_json response of Some v \<Rightarrow> v | None \<Rightarrow> JNull) in
         case error_field parsed ''message'' of
           Inl e \<Rightarrow> Inl e
         | Inr m \<Rightarrow>
            (let message = py_or m (JString (''HTTP '' @ str_int (status_code response)
                                      @ '': '' @ reason_phrase response)) in
             case error_field parsed ''code'' of
               Inl e \<Rightarrow> Inl e
             | Inr c \<Rightarrow>
                (let code = py_or c (JString (''HTTP_'' @ str_int (status_code response)))
                 in Inl (AetherError message code (status_code response)))))
      else
        (case resp_json response of
           None \<Rightarrow> Inl DecodeError
         | Some data \<Rightarrow>
            (if is_dict data \<and> py_in ''data'' data then py_subscript data ''data''
             else Inr data)))"

section \<open>The client (client.py and async client)\<close>

text \<open>
  A request as the client hands it to httpx: method, path, query parameters, JSON body
  and headers.
\<close>

datatype http_method = GET | POST | PUT | PATCH | DELETE

record request =
  req_method :: http_method
  req_path :: string
  req_params :: "(string \<times> json) list option"
  req_json :: "json option"
  req_headers :: "(string \<times> string) list"

text \<open>
  An open event-stream connection: the response that opened it and the protocol lines
  the server sends before it closes the connection.
\<close>

record sse_connection =
  conn_response :: response
  conn_lines :: "string list"

text \<open>
  What lies outside the repository: \<open>send\<close> is httpx with the server behind it (a
  transport fault is an exception), \<open>connect_sse\<close> opens an event stream, \<open>loads\<close>
  is \<open>json.loads\<close>, and \<open>str_of\<close> is Python's \<open>str()\<close> on a value that is not
  a string, which an f-string applies to what it interpolates.
\<close>

record env =
  send :: "request \<Rightarrow> exn + response"
  connect_sse :: "request \<Rightarrow> exn + sse_connection"
  loads :: "string \<Rightarrow> exn + json"
  str_of :: "json \<Rightarrow> string"

definition format_value :: "env \<Rightarrow> json \<Rightarrow> string" where
  "format_value env v = (case v of JString s \<Rightarrow> s | _ \<Rightarrow> str_of env v)"

text \<open>
  The client's state: \<open>_base_url\<close> and \<open>_token\<close>. The token is annotated
  \<open>str | None\<close>, but \<open>login\<close> stores whatever value the server sent, so it is a
  JSON value here, with \<open>JNull\<close> for \<open>None\<close>.
\<close>

record client =
  base_url :: string
  token :: json

definition rstrip_slash :: "string \<Rightarrow> string" where
  "rstrip_slash s = rev (dropWhile (\<lambda>c. c = CHR ''/'') (rev s))"

definition init_client :: "string \<Rightarrow> string option \<Rightarrow> client" where
  "init_client url tok =
     \<lparr>base_url = rstrip_slash url,
      token = (case tok of Some t \<Rightarrow> JString t | None \<Rightarrow> JNull)\<rparr>"

definition set_token :: "client \<Rightarrow> string \<Rightarrow> client" where
  "set_token c t = c\<lparr>token := JString t\<rparr>"

text \<open>\<open>_headers\<close>: the \<open>Authorization\<close> header is added under \<open>if self._token:\<close>.\<close>

definition headers :: "env \<Rightarrow> client \<Rightarrow> (string \<times> string) list" where
  "headers env c =
     (if truthy (token c) then [(''Authorization'', ''Bearer '' @ format_value env (token c))]
      else [])"

text \<open>
  The five transport helpers. Each builds its request with the headers of the moment,
  sends it and normalises the response; none of them writes the client's state.
\<close>

definition get_request :: "env \<Rightarrow> client \<Rightarrow> string \<Rightarrow> (string \<times> json) list option \<Rightarrow> request" where
  "get_request env c path params =
     \<lparr>req_method = GET, req_path = path, req_params = params, req_json = None,
      req_headers = headers env c\<rparr>"

definition post_request :: "env \<Rightarrow> client \<Rightarrow> string \<Rightarrow> json option \<Rightarrow> request" where
  "post_request env c path body =
     \<lparr>req_method = POST, req_path = path, req_params = None, req_json = body,
      req_headers = headers env c\<rparr>"

definition put_request :: "env \<Rightarrow> client \<Rightarrow> string \<Rightarrow> json \<Rightarrow> request" where
  "put_request env c path body =
     \<lparr>req_method = PUT, req_path = path, req_params = None, req_json = Some body,
      req_headers = headers env c\<rparr>"

definition patch_request :: "env \<Rightarrow> client \<Rightarrow> string \<Rightarrow> json \<Rightarrow> request" where
  "patch_request env c path body =
     \<lparr>req_method = PATCH, req_path = path, req_params = None, req_json = Some body,
      req_headers = headers env c\<rparr>"

definition delete_request :: "env \<Rightarrow> client \<Rightarrow> string \<Rightarrow> request" where
  "delete_request env c path =
     \<lparr>req_method = DELETE, req_path = path, req_params = None, req_json = None,
      req_headers = headers env c\<rparr>"

definition dispatch :: "env \<Rightarrow> request \<Rightarrow> exn + json" where
  "dispatch env req =
     (case send env req of Inl e \<Rightarrow> Inl e | Inr response \<Rightarrow> handle_response response)"

definition client_get :: "env \<Rightarrow> client \<Rightarrow> string \<Rightarrow> (string \<times> json) list option \<Rightarrow> exn + json" where
  "client_get env c path params = dispatch env (get_request env c path params)"

definition client_post :: "env \<Rightarrow> client \<Rightarrow> string \<Rightarrow> json option \<Rightarrow> exn + json" where
  "client_post env c path body = dispatch env (post_request env c path body)"

definition client_put :: "env \<Rightarrow> client \<Rightarrow> string \<Rightarrow> json \<Rightarrow> exn + json" where
  "client_put env c path body = dispatch env (put_request env c path body)"

definition client_patch :: "env \<Rightarrow> client \<Rightarrow> string \<Rightarrow> json \<Rightarrow> exn + json" where
  "client_patch env c path body = dispatch env (patch_request env c path body)"

definition client_delete :: "env \<Rightarrow> client \<Rightarrow> string \<Rightarrow> exn + json" where
  "client_delete env c path = dispatch env (delete_request env c path)"

text \<open>
  \<open>login\<close>: post the credentials; an exception of \<open>_post\<close> propagates before the
  token is touched; otherwise the token is overwritten when the normalised result is a
  dict with a \<open>token\<close> key. The result is the outcome together with the client
  afterwards.
\<close>

definition login_body :: "string \<Rightarrow> string \<Rightarrow> json" where
  "login_body username password =
     JObject [(''username'', JString username), (''password'', JString password)]"

definition login :: "env \<Rightarrow> client \<Rightarrow> string \<Rightarrow> string \<Rightarrow> (exn + json) \<times> client" where
  "login env c username password =
     (case client_post env c ''/api/auth/login'' (Some (login_body username password)) of
        Inl e \<Rightarrow> (Inl e, c)
      | Inr result \<Rightarrow>
          (if is_dict result \<and> py_in ''token'' result then
             (case py_subscript result ''token'' of
                Inl e \<Rightarrow> (Inl e, c)
              | Inr t \<Rightarrow> (Inr result, c\<lparr>token := t\<rparr>))
           else (Inr result, c)))"

section \<open>The filesystem namespace (namespaces.py)\<close>

text \<open>
  Modelled from the spec: \<open>urllib.parse.quote(string, safe)\<close> belongs to the Python
  standard library and is not in the repository. Section 6 of the specification asks
  for percent-encoding with no character exempted as safe, and section 8 gives
  \<open>folder%2Ffile.txt\<close> for \<open>folder/file.txt\<close>. The function is given with its
  \<open>safe\<close> argument, on the UTF-8 bytes of the string: letters, digits and \<open>_.-~\<close>
  are always kept, an ASCII character listed in \<open>safe\<close> is kept, every other byte
  becomes \<open>%XX\<close> in upper-case hexadecimal.
\<close>

definition always_safe :: string where
  "always_safe =
     ''ABCDEFGHIJKLMNOPQRSTUVWXYZabcdefghijklmnopqrstuvwxyz0123456789_.-~''"

definition hex_digit :: "nat \<Rightarrow> char" where
  "hex_digit d = ''0123456789ABCDEF'' ! d"

definition percent :: "char \<Rightarrow> string" where
  "percent c =
     [CHR ''%'', hex_digit ((of_char c :: nat) div 16), hex_digit ((of_char c :: nat) mod 16)]"

definition quote_byte :: "string \<Rightarrow> char \<Rightarrow> string" where
  "quote_byte safe c =
     (if c \<in> set always_safe \<or> (c \<in> set safe \<and> (of_char c :: nat) < 128) then [c]
      else percent c)"

definition quote :: "string \<Rightarrow> string \<Rightarrow> string" where
  "quote s safe = concat (map (quote_byte safe) s)"

text \<open>The path all three operations format: \<^verbatim>\<open>f"/api/v1/fs/{quote(path, safe='')}"\<close>.\<close>

definition fs_path :: "string \<Rightarrow> string" where
  "fs_path path = ''/api/v1/fs/'' @ quote path ''''"

definition fs_read :: "env \<Rightarrow> client \<Rightarrow> string \<Rightarrow> exn + json" where
  "fs_read env c path = client_get env c (fs_path path) None"

definition fs_write :: "env \<Rightarrow> client \<Rightarrow> string \<Rightarrow> string \<Rightarrow> exn + json" where
  "fs_write env c path content =
     client_put env c (fs_path path) (JObject [(''content'', JString content)])"

definition fs_delete :: "env \<Rightarrow> client \<Rightarrow> string \<Rightarrow> exn + json" where
  "fs_delete env c path = client_delete env c (fs_path path)"

section \<open>The event stream (events.py)\<close>

text \<open>
  A \<open>ServerSentEvent\<close> as \<open>iter_sse\<close> yields it; the generator reads only its
  \<open>data\<close>.
\<close>

record sse =
  sse_data :: string

text \<open>
  The loop of \<open>subscribe_events\<close> (and of \<open>subscribe_events_async\<close>) over the
  records that \<open>iter_sse\<close> yields: a record with empty data is passed over, a record
  whose data \<open>json.loads\<close> decodes is yielded, a \<open>JSONDecodeError\<close> is caught and the
  loop continues, any other exception of \<open>json.loads\<close> ends the generator. The result
  is the sequence of yielded events and the exception that ended the stream, if any.
\<close>

fun sse_loop :: "(string \<Rightarrow> exn + json) \<Rightarrow> sse list \<Rightarrow> json list \<times> exn option" where
  "sse_loop ld [] = ([], None)"
| "sse_loop ld (s # rest) =
     (if sse_data s \<noteq> [] then
        (case ld (sse_data s) of
           Inr v \<Rightarrow> (case sse_loop ld rest of (evs, err) \<Rightarrow> (v # evs, err))
         | Inl e \<Rightarrow> (if e = JSONDecodeError then sse_loop ld rest else ([], Some e)))
      else sse_loop ld rest)"

text \<open>
  Modelled from the spec: the payload of a \<open>data:\<close> line, which \<open>iter_sse\<close> of the
  httpx-sse package extracts; that package is not in the repository. Section 4.2 of
  the specification calls it the text after the prefix; the prefix is taken as the
  repository's tests take it (\<open>TestSSEEventParsing\<close>): \<open>data: \<close>, or \<open>data:\<close> when no
  space follows.
\<close>

definition data_payload :: "string \<Rightarrow> string" where
  "data_payload line = (if startswith line ''data: '' then drop 6 line else drop 5 line)"

text \<open>
  Modelled from the spec: the line reassembly of \<open>iter_sse\<close> (httpx-sse, not in the
  repository), from a given buffer. Section 4.2 of the specification gives the
  machine: a \<open>data:\<close> line appends its payload to the buffer, with nothing inserted
  between two payloads; a blank line closes the record when the buffer is not empty
  and resets the buffer; a blank line on an empty buffer does nothing. Any other line
  leaves the buffer as it is, and a record left open when the lines end is dropped.
\<close>

fun iter_sse_from :: "string \<Rightarrow> string list \<Rightarrow> sse list" where
  "iter_sse_from buf [] = []"
| "iter_sse_from buf (line # rest) =
     (if startswith line ''data:'' then iter_sse_from (buf @ data_payload line) rest
      else if line = [] \<and> buf \<noteq> [] then \<lparr>sse_data = buf\<rparr> # iter_sse_from [] rest
      else iter_sse_from buf rest)"

text \<open>
  Modelled from the spec: \<open>iter_sse\<close> on a connection that just opened, where the
  buffer is empty.
\<close>

definition iter_sse :: "string list \<Rightarrow> sse list" where
  "iter_sse lines = iter_sse_from [] lines"

text \<open>The events a consumer receives from the protocol lines of an open stream.\<close>

definition event_stream :: "(string \<Rightarrow> exn + json) \<Rightarrow> string list \<Rightarrow> json list \<times> exn option" where
  "event_stream ld lines = sse_loop ld (iter_sse lines)"

text \<open>
  \<open>subscribe_events\<close>: the URL, the \<open>filter\<close> parameter and the headers, then
  \<open>raise_for_status\<close> on the response that opened the stream, then the loop.
\<close>

fun join :: "string \<Rightarrow> string list \<Rightarrow> string" where
  "join sep [] = []"
| "join sep [x] = x"
| "join sep (x # y # ys) = x @ sep @ join sep (y # ys)"

definition subscribe_request :: "env \<Rightarrow> string \<Rightarrow> json \<Rightarrow> string list option \<Rightarrow> request" where
  "subscribe_request env url tok event_filter =
     \<lparr>req_method = GET,
      req_path = rstrip_slash url @ ''/api/v1/events'',
      req_params = Some (case event_filter of
                           None \<Rightarrow> []
                         | Some fs \<Rightarrow> if fs \<noteq> [] then [(''filter'', JString (join '','' fs))] else []),
      req_json = None,
      req_headers = (''Accept'', ''text/event-stream'')
                    # (if truthy tok then [(''Authorization'', ''Bearer '' @ format_value env tok)]
                       else [])\<rparr>"

definition subscribe_events :: "env \<Rightarrow> string \<Rightarrow> json \<Rightarrow> string list option \<Rightarrow> json list \<times> exn option" where
  "subscribe_events env url tok event_filter =
     (case connect_sse env (subscribe_request env url tok event_filter) of
        Inl e \<Rightarrow> ([], Some e)
      | Inr conn \<Rightarrow>
          (if \<not> is_success (conn_response conn)
           then ([], Some (HTTPStatusError (status_code (conn_response conn))))
           else event_stream (loads env) (conn_lines conn)))"

text \<open>\<open>client.events.subscribe(filter)\<close>: the accessor passes the token of the moment.\<close>

definition events_subscribe :: "env \<Rightarrow> client \<Rightarrow> string list option \<Rightarrow> json list \<times> exn option" where
  "events_subscribe env c event_filter = subscribe_events env (base_url c) (token c) event_filter"

text \<open>
  The reader as the repository's tests run it (\<open>test_parse_multiline_sse_data\<close>): one
  loop over the lines that accumulates the payloads and decodes at a blank line.
\<close>

fun test_reader :: "(string \<Rightarrow> exn + json) \<Rightarrow> string \<Rightarrow> string list \<Rightarrow> json list \<times> exn option" where
  "test_reader ld current_data [] = ([], None)"
| "test_reader ld current_data (line # rest) =
     (if startswith line ''data: '' then test_reader ld (current_data @ drop 6 line) rest
      else if startswith line ''data:'' then test_reader ld (current_data @ drop 5 line) rest
      else if line = [] \<and> current_data \<noteq> [] then
        (case ld current_data of
           Inr v \<Rightarrow> (case test_reader ld [] rest of (evs, err) \<Rightarrow> (v # evs, err))
         | Inl e \<Rightarrow> (if e = JSONDecodeError then test_reader ld [] rest else ([], Some e)))
      else test_reader ld current_data rest)"

section \<open>Notions of the specification\<close>

text \<open>
  The definitions of this section are not code of the repository: they say, in the
  words of the specification, what the theorems compare the code with.
\<close>

text \<open>
  The envelope (section 3): a mapping with a top-level \<open>data\<close> key stands for the
  value of that key, any other body for itself.
\<close>

definition unwrap :: "json \<Rightarrow> json" where
  "unwrap body =
     (case body of
        JObject kvs \<Rightarrow> (case map_of kvs ''data'' of Some d \<Rightarrow> d | None \<Rightarrow> body)
      | _ \<Rightarrow> body)"

text \<open>
  The error envelope (section 3): the body's \<open>error.<field>\<close>, present when the body
  parsed to a mapping whose \<open>error\<close> entry is a mapping with that field.
\<close>

definition body_error_field :: "json option \<Rightarrow> string \<Rightarrow> json option" where
  "body_error_field b field =
     (case b of
        Some (JObject kvs) \<Rightarrow>
          (case map_of kvs ''error'' of Some (JObject e) \<Rightarrow> map_of e field | _ \<Rightarrow> None)
      | _ \<Rightarrow> None)"

text \<open>The body has no \<open>error\<close> entry of a shape other than a mapping.\<close>

definition error_entry_ok :: "json option \<Rightarrow> bool" where
  "error_entry_ok b =
     (case b of
        Some (JObject kvs) \<Rightarrow>
          (case map_of kvs ''error'' of None \<Rightarrow> True | Some (JObject e) \<Rightarrow> True | Some v \<Rightarrow> False)
      | _ \<Rightarrow> True)"

text \<open>
  The HTTP-level defaults (section 3): \<open>HTTP <status>: <reason phrase>\<close> for the
  message and \<open>HTTP_<status>\<close> for the code.
\<close>

definition http_message :: "response \<Rightarrow> json" where
  "http_message r = JString (''HTTP '' @ str_int (status_code r) @ '': '' @ reason_phrase r)"

definition http_code :: "response \<Rightarrow> json" where
  "http_code r = JString (''HTTP_'' @ str_int (status_code r))"

text \<open>A field that is absent or falsy gives way to the default.\<close>

definition fallback :: "json option \<Rightarrow> json \<Rightarrow> json" where
  "fallback v d = (case v of Some x \<Rightarrow> if truthy x then x else d | None \<Rightarrow> d)"

text \<open>
  Percent-decoding, which a server applies to a path segment: \<open>%XX\<close> with two
  hexadecimal digits stands for the byte \<open>XX\<close>, any other character for itself.
\<close>

definition hex_value :: "char \<Rightarrow> nat option" where
  "hex_value c =
     (let n = (of_char c :: nat) in
      if 48 \<le> n \<and> n \<le> 57 then Some (n - 48)
      else if 65 \<le> n \<and> n \<le> 70 then Some (n - 55)
      else if 97 \<le> n \<and> n \<le> 102 then Some (n - 87)
      else None)"

fun unquote :: "string \<Rightarrow> string" where
  "unquote (c # h # l # rest) =
     (if c = CHR ''%'' then
        (case (hex_value h, hex_value l) of
           (Some a, Some b) \<Rightarrow> char_of (16 * a + b) # unquote rest
         | _ \<Rightarrow> c # unquote (h # l # rest))
      else c # unquote (h # l # rest))"
| "unquote cs = cs"

section \<open>A JSON decoder for the scenarios\<close>

text \<open>
  The theorems below hold for any decoder. To run the scenarios of the specification,
  this is a decoder for the part of JSON they use: objects, arrays, strings without
  escapes, integers, \<open>true\<close>, \<open>false\<close>, \<open>null\<close> and white space. On a text outside that
  part (a fraction, an exponent, an escape) it reports a decode error where
  \<open>json.loads\<close> may not, so it stands for \<open>json.loads\<close> on the scenarios' texts only.
  A repeated key keeps its first position and its last value, as a Python dict does.
\<close>

definition is_ws :: "char \<Rightarrow> bool" where
  "is_ws c = (c \<in> set [CHR '' '', CHR 0x09, CHR 0x0A, CHR 0x0D])"

definition skip_ws :: "string \<Rightarrow> string" where
  "skip_ws s = dropWhile is_ws s"

definition is_digit :: "char \<Rightarrow> bool" where
  "is_digit c = (c \<in> set ''0123456789'')"

definition digit_value :: "char \<Rightarrow> int" where
  "digit_value c = int (of_char c) - 48"

fun scan_string :: "string \<Rightarrow> (string \<times> string) option" where
  "scan_string [] = None"
| "scan_string (c # cs) =
     (if c = CHR 0x22 then Some ([], cs)
      else if c = CHR 0x5C \<or> (of_char c :: nat) < 32 then None
      else (case scan_string cs of Some (s, rest) \<Rightarrow> Some (c # s, rest) | None \<Rightarrow> None))"

definition scan_digits :: "string \<Rightarrow> (json \<times> string) option" where
  "scan_digits s =
     (let ds = takeWhile is_digit s; rest = dropWhile is_digit s in
      if ds = [] \<or> (length ds > 1 \<and> hd ds = CHR ''0'') then None
      else if rest \<noteq> [] \<and> hd rest \<in> set ''.eE'' then None
      else Some (JInt (foldl (\<lambda>a d. 10 * a + digit_value d) 0 ds), rest))"

definition scan_number :: "string \<Rightarrow> (json \<times> string) option" where
  "scan_number s =
     (if startswith s ''-'' then
        (case scan_digits (drop 1 s) of
           Some (JInt i, rest) \<Rightarrow> Some (JInt (- i), rest)
         | _ \<Rightarrow> None)
      else scan_digits s)"

fun dict_set :: "(string \<times> json) list \<Rightarrow> string \<Rightarrow> json \<Rightarrow> (string \<times> json) list" where
  "dict_set [] k v = [(k, v)]"
| "dict_set ((k', v') # kvs) k v =
     (if k' = k then (k, v) # kvs else (k', v') # dict_set kvs k v)"

fun parse_value :: "nat \<Rightarrow> string \<Rightarrow> (json \<times> string) option"
  and parse_members :: "nat \<Rightarrow> (string \<times> json) list \<Rightarrow> string \<Rightarrow> (json \<times> string) option"
  and parse_elements :: "nat \<Rightarrow> json list \<Rightarrow> string \<Rightarrow> (json \<times> string) option"
where
  "parse_value 0 s = None"
| "parse_value (Suc n) s =
     (if startswith s ''{'' then
        (if startswith (skip_ws (drop 1 s)) ''}'' then Some (JObject [], drop 1 (skip_ws (drop 1 s)))
         else parse_members n [] (skip_ws (drop 1 s)))
      else if startswith s ''['' then
        (if startswith (skip_ws (drop 1 s)) '']'' then Some (JArray [], drop 1 (skip_ws (drop 1 s)))
         else parse_elements n [] (skip_ws (drop 1 s)))
      else if startswith s [CHR 0x22] then
        (case scan_string (drop 1 s) of Some (str, rest) \<Rightarrow> Some (JString str, rest) | None \<Rightarrow> None)
      else if startswith s ''true'' then Some (JBool True, drop 4 s)
      else if startswith s ''false'' then Some (JBool False, drop 5 s)
      else if startswith s ''null'' then Some (JNull, drop 4 s)
      else scan_number s)"
| "parse_members 0 acc s = None"
| "parse_members (Suc n) acc s =
     (if startswith s [CHR 0x22] then
        (case scan_string (drop 1 s) of
           None \<Rightarrow> None
         | Some (k, rest) \<Rightarrow>
            (if startswith (skip_ws rest) '':'' then
               (case parse_value n (skip_ws (drop 1 (skip_ws rest))) of
                  None \<Rightarrow> None
                | Some (v, rest') \<Rightarrow>
                   (if startswith (skip_ws rest') '','' then
                      parse_members n (dict_set acc k v) (skip_ws (drop 1 (skip_ws rest')))
                    else if startswith (skip_ws rest') ''}'' then
                      Some (JObject (dict_set acc k v), drop 1 (skip_ws rest'))
                    else None))
             else None))
      else None)"
| "parse_elements 0 acc s = None"
| "parse_elements (Suc n) acc s =
     (case parse_value n s of
        None \<Rightarrow> None
      | Some (v, rest) \<Rightarrow>
         (if startswith (skip_ws rest) '','' then
            parse_elements n (acc @ [v]) (skip_ws (drop 1 (skip_ws rest)))
          else if startswith (skip_ws rest) '']'' then
            Some (JArray (acc @ [v]), drop 1 (skip_ws rest))
          else None))"

definition scenario_loads :: "string \<Rightarrow> exn + json" where
  "scenario_loads s =
     (case parse_value (length s) (skip_ws s) of
        None \<Rightarrow> Inl JSONDecodeError
      | Some (v, rest) \<Rightarrow> if skip_ws rest = [] then Inr v else Inl JSONDecodeError)"

section \<open>Scenarios\<close>

text \<open>
  A mocked endpoint, as the repository's tests set one up: every request is answered
  with the given response. No event stream is served, and no value other than a string
  is ever formatted in the scenarios.
\<close>

definition mock_env :: "response \<Rightarrow> env" where
  "mock_env r =
     \<lparr>send = (\<lambda>req. Inr r),
      connect_sse = (\<lambda>req. Inl TransportError),
      loads = scenario_loads,
      str_of = (\<lambda>v. [])\<rparr>"

text \<open>
  A server that answers every request with status 200 and the path it was asked for,
  so that the path a request carries can be read off the result.
\<close>

definition echo_env :: env where
  "echo_env =
     \<lparr>send = (\<lambda>req. Inr \<lparr>status_code = 200, reason_phrase = ''OK'',
                           resp_json = Some (JObject [(''path'', JString (req_path req))])\<rparr>),
      connect_sse = (\<lambda>req. Inl TransportError),
      loads = scenario_loads,
      str_of = (\<lambda>v. [])\<rparr>"

text \<open>
  \<open>json.loads\<close> under a recursion limit, for a text that opens with a run of
  brackets: the scanner recurses once for each of them, so a run that reaches the limit
  ends in a \<open>RecursionError\<close> before the text is read to its end. On any other text
  this is the decoder of the scenarios.
\<close>

definition deep_loads :: "nat \<Rightarrow> string \<Rightarrow> exn + json" where
  "deep_loads limit s =
     (if limit \<le> length (takeWhile (\<lambda>c. c = CHR ''['') s) then Inl RecursionError
      else scenario_loads s)"

definition resp_enveloped :: response where
  "resp_enveloped =
     \<lparr>status_code = 200, reason_phrase = ''OK'',
      resp_json = Some (JObject [(''data'', JObject [(''data'', JInt 1), (''items'', JArray [JInt 2])]),
                                 (''meta'', JNull)])\<rparr>"

definition resp_not_found :: response where
  "resp_not_found =
     \<lparr>status_code = 404, reason_phrase = ''Not Found'',
      resp_json = Some (JObject [(''error'', JObject [(''code'', JString ''AGENT_NOT_FOUND''),
                                                     (''message'', JString ''No such agent'')])])\<rparr>"

definition resp_empty_code :: response where
  "resp_empty_code =
     \<lparr>status_code = 500, reason_phrase = ''Internal Server Error'',
      resp_json = Some (JObject [(''error'', JObject [(''code'', JString ''''),
                                                     (''message'', JString ''boom'')])])\<rparr>"

definition resp_error_text :: response where
  "resp_error_text =
     \<lparr>status_code = 500, reason_phrase = ''Internal Server Error'',
      resp_json = Some (JObject [(''error'', JString ''oops'')])\<rparr>"

definition login_reply :: json where
  "login_reply = JObject [(''token'', JString ''jwt-1''), (''user'', JObject [(''id'', JString ''u1'')])]"

definition resp_login :: response where
  "resp_login = \<lparr>status_code = 200, reason_phrase = ''OK'', resp_json = Some login_reply\<rparr>"

definition resp_login_enveloped :: response where
  "resp_login_enveloped =
     \<lparr>status_code = 200, reason_phrase = ''OK'',
      resp_json = Some (JObject [(''data'', JObject [(''token'', JString ''jwt-2'')])])\<rparr>"

definition resp_unauthorized :: response where
  "resp_unauthorized =
     \<lparr>status_code = 401, reason_phrase = ''Unauthorized'',
      resp_json = Some (JObject [(''error'', JObject [(''code'', JString ''UNAUTHORIZED''),
                                                     (''message'', JString ''Invalid token'')])])\<rparr>"

section \<open>Response normalisation: theorems\<close>

lemma error_field_shape:
  assumes "error_entry_ok b"
  shows "error_field (case b of Some v \<Rightarrow> v | None \<Rightarrow> JNull) f
         = Inr (case body_error_field b f of Some v \<Rightarrow> v | None \<Rightarrow> JNull)"
proof (cases b)
  case None
  then show ?thesis by (simp add: error_field_def body_error_field_def)
next
  case (Some parsed)
  show ?thesis
  proof (cases parsed)
    case (JObject kvs)
    show ?thesis
    proof (cases "map_of kvs ''error''")
      case None
      with Some JObject show ?thesis by (simp add: error_field_def body_error_field_def)
    next
      case (Some err)
      with assms \<open>b = Some parsed\<close> JObject obtain e where "err = JObject e"
        by (cases err) (simp_all add: error_entry_ok_def)
      with Some \<open>b = Some parsed\<close> JObject show ?thesis
        by (simp add: error_field_def body_error_field_def)
    qed
  qed (simp_all add: Some error_field_def body_error_field_def)
qed

lemma py_or_fallback:
  "py_or (case x of Some v \<Rightarrow> v | None \<Rightarrow> JNull) d = fallback x d"
  by (cases x) (simp_all add: py_or_def fallback_def)

lemma handle_response_ok:
  assumes "is_success r" and "resp_json r = Some body"
  shows "handle_response r = Inr (unwrap body)"
proof (cases body)
  case (JObject kvs)
  with assms show ?thesis
    by (cases "map_of kvs ''data''") (simp_all add: handle_response_def unwrap_def)
qed (use assms in \<open>simp_all add: handle_response_def unwrap_def\<close>)

lemma str_int_500: "str_int 500 = ''500''"
  by (simp add: str_int_def str_nat.simps)

lemma str_int_404: "str_int 404 = ''404''"
  by (simp add: str_int_def str_nat.simps)

text \<open>
  C1. A 2xx response whose body parsed to a mapping with a top-level \<open>data\<close> key is
  normalised to the value of that key, exactly as it was parsed; a 2xx response with
  any other parsed body, a mapping without that key or no mapping at all, is normalised
  to the whole body unchanged. Only the top level is looked at.
\<close>

theorem handle_response_success:
  assumes "is_success r" and "resp_json r = Some body"
  shows "(\<forall>kvs d. body = JObject kvs \<and> map_of kvs ''data'' = Some d
            \<longrightarrow> handle_response r = Inr d)
       \<and> ((\<forall>kvs. body = JObject kvs \<longrightarrow> map_of kvs ''data'' = None)
            \<longrightarrow> handle_response r = Inr body)"
proof (intro conjI allI impI)
  fix kvs d
  assume "body = JObject kvs \<and> map_of kvs ''data'' = Some d"
  then show "handle_response r = Inr d"
    using handle_response_ok [OF assms] by (simp add: unwrap_def)
next
  assume "\<forall>kvs. body = JObject kvs \<longrightarrow> map_of kvs ''data'' = None"
  then have "unwrap body = body"
    by (cases body) (simp_all add: unwrap_def)
  then show "handle_response r = Inr body"
    using handle_response_ok [OF assms] by simp
qed

theorem handle_response_success_witness:
  "is_success resp_enveloped
   \<and> handle_response resp_enveloped = Inr (JObject [(''data'', JInt 1), (''items'', JArray [JInt 2])])
   \<and> handle_response (resp_enveloped\<lparr>resp_json := Some (JArray [JObject [(''data'', JInt 1)]])\<rparr>)
       = Inr (JArray [JObject [(''data'', JInt 1)]])"
proof -
  have ok: "is_success resp_enveloped"
    by (simp add: resp_enveloped_def is_success_def)
  have ok': "is_success (resp_enveloped\<lparr>resp_json := Some (JArray [JObject [(''data'', JInt 1)]])\<rparr>)"
    by (simp add: resp_enveloped_def is_success_def)
  have "handle_response resp_enveloped = Inr (JObject [(''data'', JInt 1), (''items'', JArray [JInt 2])])"
    using handle_response_success [OF ok, of "the (resp_json resp_enveloped)"]
    by (simp add: resp_enveloped_def)
  moreover have "handle_response (resp_enveloped\<lparr>resp_json := Some (JArray [JObject [(''data'', JInt 1)]])\<rparr>)
       = Inr (JArray [JObject [(''data'', JInt 1)]])"
    using handle_response_success [OF ok', of "JArray [JObject [(''data'', JInt 1)]]"]
    by simp
  ultimately show ?thesis using ok by simp
qed

text \<open>
  C2, as stated, fails: the body's \<open>error.code\<close> is present and is the empty string,
  and the error raised carries \<open>HTTP_500\<close> instead.
\<close>

theorem handle_response_empty_code_counterexample:
  "\<not> is_success resp_empty_code
   \<and> body_error_field (resp_json resp_empty_code) ''code'' = Some (JString [])
   \<and> handle_response resp_empty_code \<noteq> Inl (AetherError (JString ''boom'') (JString []) 500)
   \<and> handle_response resp_empty_code = Inl (AetherError (JString ''boom'') (JString ''HTTP_500'') 500)"
  by (simp add: resp_empty_code_def is_success_def body_error_field_def handle_response_def
       error_field_def py_or_def str_int_500)

text \<open>
  C2, amended. For a response that is not 2xx, whose body has no \<open>error\<close> entry of a
  shape other than a mapping, \<open>_handle_response\<close> raises an \<open>AetherError\<close> with the
  status of the response; its message is the body's \<open>error.message\<close> when that is
  present and truthy, and \<open>HTTP <status>: <reason phrase>\<close> otherwise (body not JSON,
  not a mapping, without the field, or with a falsy one); its code is the body's
  \<open>error.code\<close> when present and truthy, and \<open>HTTP_<status>\<close> otherwise.
\<close>

theorem handle_response_failure:
  assumes "\<not> is_success r" and "error_entry_ok (resp_json r)"
  shows "handle_response r = Inl (AetherError
           (fallback (body_error_field (resp_json r) ''message'') (http_message r))
           (fallback (body_error_field (resp_json r) ''code'') (http_code r))
           (status_code r))"
  using assms
  by (simp add: handle_response_def error_field_shape py_or_fallback http_message_def http_code_def)

theorem handle_response_failure_witness:
  "\<not> is_success resp_not_found \<and> error_entry_ok (resp_json resp_not_found)
   \<and> handle_response resp_not_found
       = Inl (AetherError (JString ''No such agent'') (JString ''AGENT_NOT_FOUND'') 404)
   \<and> handle_response (resp_not_found\<lparr>resp_json := None\<rparr>)
       = Inl (AetherError (JString ''HTTP 404: Not Found'') (JString ''HTTP_404'') 404)"
proof -
  have a: "\<not> is_success resp_not_found" "error_entry_ok (resp_json resp_not_found)"
    by (simp_all add: resp_not_found_def is_success_def error_entry_ok_def)
  have b: "\<not> is_success (resp_not_found\<lparr>resp_json := None\<rparr>)"
    "error_entry_ok (resp_json (resp_not_found\<lparr>resp_json := None\<rparr>))"
    by (simp_all add: resp_not_found_def is_success_def error_entry_ok_def)
  show ?thesis
    using a handle_response_failure [OF a] handle_response_failure [OF b]
    by (simp add: resp_not_found_def body_error_field_def fallback_def http_message_def
         http_code_def str_int_404)
qed

text \<open>
  C3. The claim is that every response that is not 2xx ends in an \<open>AetherError\<close>,
  whatever the shape of the body. With the body \<open>{"error": "oops"}\<close> the code calls
  \<open>.get\<close> on a string, and an \<open>AttributeError\<close> escapes instead.
\<close>

theorem handle_response_error_not_mapping:
  "\<not> is_success resp_error_text \<and> handle_response resp_error_text = Inl AttributeError"
  by (simp add: resp_error_text_def is_success_def handle_response_def error_field_def)

section \<open>The event stream: theorems\<close>

lemma startswith_append: "startswith line (p @ q) \<Longrightarrow> startswith line p"
  by (induction line p rule: startswith.induct) auto

lemma startswith_data_space:
  assumes "startswith line ''data: ''"
  shows "startswith line ''data:''"
  using startswith_append [of line "''data:''" "'' ''"] assms by simp

text \<open>
  The generator's loop over the reassembled records is the reader that the
  repository's tests run line by line.
\<close>

lemma test_reader_sse_loop:
  "test_reader ld buf lines = sse_loop ld (iter_sse_from buf lines)"
proof (induction lines arbitrary: buf)
  case Nil
  show ?case by simp
next
  case (Cons line rest)
  show ?case
  proof (cases "startswith line ''data: ''")
    case True
    then show ?thesis using Cons startswith_data_space [OF True]
      by (simp add: data_payload_def)
  next
    case False
    then show ?thesis using Cons
      by (simp add: data_payload_def split: sum.splits prod.splits)
  qed
qed

lemma event_stream_as_tested: "event_stream ld lines = test_reader ld [] lines"
  by (simp add: event_stream_def iter_sse_def test_reader_sse_loop)

lemma iter_sse_from_data_lines:
  "\<forall>l \<in> set ls. startswith l ''data:'' \<Longrightarrow>
   iter_sse_from buf (ls @ rest) = iter_sse_from (buf @ concat (map data_payload ls)) rest"
  by (induction ls arbitrary: buf) simp_all

lemma iter_sse_from_blank_split:
  "pre \<noteq> [] \<Longrightarrow> last pre = [] \<Longrightarrow>
   iter_sse_from buf (pre @ rest) = iter_sse_from buf pre @ iter_sse_from [] rest"
proof (induction pre arbitrary: buf)
  case Nil
  then show ?case by simp
next
  case (Cons l pre)
  show ?case
  proof (cases "pre = []")
    case True
    with Cons.prems show ?thesis by simp
  next
    case False
    with Cons show ?thesis by simp
  qed
qed

lemma sse_loop_skip:
  "sse_data bad \<noteq> [] \<Longrightarrow> ld (sse_data bad) = Inl JSONDecodeError \<Longrightarrow>
   sse_loop ld (xs @ bad # ys) = sse_loop ld (xs @ ys)"
  by (induction xs) (simp_all split: sum.splits prod.splits)

lemma sse_loop_single_records:
  "[] \<notin> set ps \<Longrightarrow> map ld ps = map Inr vs \<Longrightarrow>
   sse_loop ld (iter_sse_from [] (concat (map (\<lambda>p. [''data: '' @ p, []]) ps))) = (vs, None)"
proof (induction ps arbitrary: vs)
  case Nil
  then show ?case by simp
next
  case (Cons p ps)
  from Cons.prems(2) obtain v vs' where vs: "vs = v # vs'" "ld p = Inr v" "map ld ps = map Inr vs'"
    by (cases vs) auto
  from Cons.prems(1) have p: "p \<noteq> []" "[] \<notin> set ps" by auto
  have "sse_loop ld (iter_sse_from [] (concat (map (\<lambda>p. [''data: '' @ p, []]) ps))) = (vs', None)"
    using Cons.IH [OF p(2) vs(3)] .
  then show ?case using p(1) vs(1,2)
    by (simp add: data_payload_def)
qed

text \<open>
  What the loop does catch. Take any stream of lines in which a record, a run of
  \<open>data:\<close> lines closed by a blank line, starts on an empty buffer (at the start of
  the stream or after a blank line) and accumulates a text that \<open>json.loads\<close> rejects
  with a \<open>JSONDecodeError\<close>. The consumer sees what it would see had the record not
  been sent: no event for it, no error, and every later record is read from an empty
  buffer. In the scenario of the specification exactly one event, of type \<open>valid\<close>,
  is emitted.
\<close>

lemma event_stream_skips_decode_error:
  assumes "pre = [] \<or> last pre = []"
    and "\<forall>l \<in> set ls. startswith l ''data:''"
    and "concat (map data_payload ls) \<noteq> []"
    and "ld (concat (map data_payload ls)) = Inl JSONDecodeError"
  shows "event_stream ld (pre @ ls @ [] # rest) = event_stream ld (pre @ rest)"
proof -
  let ?bad = "\<lparr>sse_data = concat (map data_payload ls)\<rparr>"
  have rec: "iter_sse_from [] (ls @ [] # rest) = ?bad # iter_sse_from [] rest"
    using assms(2,3) by (simp add: iter_sse_from_data_lines)
  have split: "\<And>tail. iter_sse_from [] (pre @ tail) = iter_sse_from [] pre @ iter_sse_from [] tail"
    using assms(1) by (cases "pre = []") (auto simp: iter_sse_from_blank_split)
  have "iter_sse (pre @ ls @ [] # rest) = iter_sse_from [] pre @ ?bad # iter_sse_from [] rest"
    by (simp add: iter_sse_def split rec)
  moreover have "iter_sse (pre @ rest) = iter_sse_from [] pre @ iter_sse_from [] rest"
    by (simp add: iter_sse_def split)
  ultimately show ?thesis
    using assms(3,4) by (simp add: event_stream_def sse_loop_skip)
qed

lemma event_stream_bad_then_valid:
  \<open>scenario_loads ''{bad'' = Inl JSONDecodeError
   \<and> event_stream scenario_loads [''data: {bad'', '''', ''data: {"type":"valid"}'', '''']
       = ([JObject [(''type'', JString ''valid'')]], None)\<close>
proof -
  have bad: \<open>scenario_loads ''{bad'' = Inl JSONDecodeError\<close>
    by code_simp
  have rest: \<open>event_stream scenario_loads [''data: {"type":"valid"}'', '''']
     = ([JObject [(''type'', JString ''valid'')]], None)\<close>
    by code_simp
  show ?thesis
    using event_stream_skips_decode_error [of "[]" \<open>[''data: {bad'']\<close> scenario_loads
        \<open>[''data: {"type":"valid"}'', '''']\<close>] bad rest
    by (simp add: data_payload_def)
qed

text \<open>
  C4. The claim is that a record whose accumulated text is not valid JSON gives no
  event and no error, and that the stream goes on with the records after it. The loop
  catches \<open>JSONDecodeError\<close> only: when \<open>json.loads\<close> rejects the text with any other
  exception, the generator ends with that exception and no later record is emitted. A
  text of 100000 opening brackets is not valid JSON, and \<open>json.loads\<close> raises
  \<open>RecursionError\<close> on it; the valid record that follows is lost.
\<close>

theorem event_stream_aborts_on_other_exception:
  assumes "\<forall>l \<in> set ls. startswith l ''data:''"
    and "concat (map data_payload ls) \<noteq> []"
    and "ld (concat (map data_payload ls)) = Inl e"
    and "e \<noteq> JSONDecodeError"
  shows "event_stream ld (ls @ [] # rest) = ([], Some e)"
  using assms by (simp add: event_stream_def iter_sse_def iter_sse_from_data_lines)

theorem event_stream_aborts_on_other_exception_witness:
  \<open>deep_loads 1000 (replicate 100000 (CHR ''['')) = Inl RecursionError
   \<and> event_stream (deep_loads 1000)
        [''data: '' @ replicate 100000 (CHR ''[''), '''', ''data: {"type":"valid"}'', '''']
       = ([], Some RecursionError)\<close>
proof -
  have d: "deep_loads 1000 (replicate 100000 (CHR ''['')) = Inl RecursionError"
    by (simp add: deep_loads_def)
  have p: "data_payload (''data: '' @ replicate 100000 (CHR ''['')) = replicate 100000 (CHR ''['')"
    by (simp add: data_payload_def)
  show ?thesis
    using event_stream_aborts_on_other_exception
        [of "[''data: '' @ replicate 100000 (CHR ''['')]" "deep_loads 1000" RecursionError
          \<open>[''data: {"type":"valid"}'', '''']\<close>] d p
    by simp
qed

text \<open>
  C5. A stream of records, each a single line \<open>data: <payload>\<close> followed by a blank
  line, whose payloads are not empty and are all decoded by \<open>json.loads\<close>, yields the
  decoded values, one per record, in the order of the input, and ends without an error.
  In the scenario of the specification the two events of types \<open>a\<close> and \<open>b\<close> are
  emitted in that order.
\<close>

theorem event_stream_single_records:
  assumes "[] \<notin> set ps" and "map ld ps = map Inr vs"
  shows "event_stream ld (concat (map (\<lambda>p. [''data: '' @ p, []]) ps)) = (vs, None)"
  using sse_loop_single_records [OF assms] by (simp add: event_stream_def iter_sse_def)

theorem event_stream_single_records_witness:
  \<open>event_stream scenario_loads [''data: {"type":"a"}'', '''', ''data: {"type":"b"}'', '''']
     = ([JObject [(''type'', JString ''a'')], JObject [(''type'', JString ''b'')]], None)\<close>
proof -
  have a: \<open>scenario_loads ''{"type":"a"}'' = Inr (JObject [(''type'', JString ''a'')])\<close>
    by code_simp
  have b: \<open>scenario_loads ''{"type":"b"}'' = Inr (JObject [(''type'', JString ''b'')])\<close>
    by code_simp
  show ?thesis
    using event_stream_single_records [of \<open>[''{"type":"a"}'', ''{"type":"b"}'']\<close> scenario_loads
        "[JObject [(''type'', JString ''a'')], JObject [(''type'', JString ''b'')]]"] a b
    by simp
qed

text \<open>
  C6. A record made of several consecutive \<open>data:\<close> lines and closed by a blank line
  is reassembled into one record whose data is the concatenation of the payloads, with
  nothing in between, and that text is decoded once. In the scenario of the
  specification the two lines give the single event
  \<open>{"type": "big", "payload": "hello"}\<close>.
\<close>

theorem event_stream_multi_line:
  assumes "\<forall>l \<in> set ls. startswith l ''data:''"
    and "concat (map data_payload ls) \<noteq> []"
    and "ld (concat (map data_payload ls)) = Inr v"
  shows "iter_sse (ls @ [[]]) = [\<lparr>sse_data = concat (map data_payload ls)\<rparr>]
       \<and> event_stream ld (ls @ [[]]) = ([v], None)"
  using assms by (simp add: event_stream_def iter_sse_def iter_sse_from_data_lines)

theorem event_stream_multi_line_witness:
  \<open>iter_sse [''data: {"type": "big",'', ''data:  "payload": "hello"}'', '''']
     = [\<lparr>sse_data = ''{"type": "big",'' @ '' "payload": "hello"}''\<rparr>]
   \<and> event_stream scenario_loads [''data: {"type": "big",'', ''data:  "payload": "hello"}'', '''']
     = ([JObject [(''type'', JString ''big''), (''payload'', JString ''hello'')]], None)\<close>
proof -
  have v: \<open>scenario_loads ''{"type": "big", "payload": "hello"}''
      = Inr (JObject [(''type'', JString ''big''), (''payload'', JString ''hello'')])\<close>
    by code_simp
  show ?thesis
    using event_stream_multi_line [of \<open>[''data: {"type": "big",'', ''data:  "payload": "hello"}'']\<close>
        scenario_loads "JObject [(''type'', JString ''big''), (''payload'', JString ''hello'')]"] v
    by (simp add: data_payload_def)
qed

section \<open>The client: theorems\<close>

lemma handle_response_raises:
  assumes "\<not> is_success r"
  shows "\<exists>e. handle_response r = Inl e"
  using assms by (simp add: handle_response_def Let_def split: sum.splits)

lemma subscribe_events_open:
  assumes "connect_sse env (subscribe_request env url tok event_filter) = Inr conn"
    and "is_success (conn_response conn)"
  shows "subscribe_events env url tok event_filter = event_stream (loads env) (conn_lines conn)"
  using assms by (simp add: subscribe_events_def)

text \<open>
  C7. When the login endpoint answers 2xx with a body that is a mapping with a
  \<open>token\<close> key and no \<open>data\<close> key, \<open>login\<close> returns that body unchanged and the
  client's token afterwards is the value of the \<open>token\<close> key. In the scenario of the
  specification the stored token is \<open>jwt-1\<close>.
\<close>

theorem login_stores_token:
  assumes "send env (post_request env c ''/api/auth/login'' (Some (login_body username password))) = Inr r"
    and "is_success r" and "resp_json r = Some (JObject kvs)"
    and "map_of kvs ''data'' = None" and "map_of kvs ''token'' = Some t"
  shows "login env c username password = (Inr (JObject kvs), c\<lparr>token := t\<rparr>)"
proof -
  have "handle_response r = Inr (JObject kvs)"
    using handle_response_ok [OF assms(2,3)] assms(4) by (simp add: unwrap_def)
  then show ?thesis
    using assms(1,5) by (simp add: login_def client_post_def dispatch_def)
qed

theorem login_stores_token_witness:
  "login (mock_env resp_login) (init_client ''http://aether.test'' None) ''admin'' ''secret''
     = (Inr (JObject [(''token'', JString ''jwt-1''), (''user'', JObject [(''id'', JString ''u1'')])]),
        \<lparr>base_url = ''http://aether.test'', token = JString ''jwt-1''\<rparr>)"
  using login_stores_token [of "mock_env resp_login" "init_client ''http://aether.test'' None"
      "''admin''" "''secret''" resp_login
      "[(''token'', JString ''jwt-1''), (''user'', JObject [(''id'', JString ''u1'')])]"
      "JString ''jwt-1''"]
  by (simp add: mock_env_def resp_login_def login_reply_def is_success_def init_client_def
       rstrip_slash_def)

text \<open>
  C9, as stated, fails: after \<open>set_token("")\<close> a token has been set on the client (it
  is not \<open>None\<close>), and the request carries no \<open>Authorization\<close> header.
\<close>

theorem headers_empty_token_counterexample:
  "token (set_token (init_client ''http://aether.test'' None) []) = JString []
   \<and> token (set_token (init_client ''http://aether.test'' None) []) \<noteq> JNull
   \<and> map_of (req_headers (get_request (mock_env resp_enveloped)
                (set_token (init_client ''http://aether.test'' None) []) ''/api/v1/agents'' None))
        ''Authorization'' = None"
  by (simp add: set_token_def init_client_def get_request_def headers_def)

text \<open>
  C9, amended. Every request the client builds, through any of the five transport
  helpers or for the event stream, carries \<open>Authorization: Bearer <token>\<close> if and only
  if the token the client holds at that moment is truthy; for a string token that
  means not empty. With no token, or with the empty string as token, the header is
  omitted entirely.
\<close>

theorem request_authorization:
  assumes "req \<in> {get_request env c path params, post_request env c path body,
                  put_request env c path b, patch_request env c path b,
                  delete_request env c path,
                  subscribe_request env (base_url c) (token c) event_filter}"
  shows "map_of (req_headers req) ''Authorization''
           = (if truthy (token c) then Some (''Bearer '' @ format_value env (token c)) else None)
       \<and> (\<forall>t. token c = JString t \<longrightarrow>
            map_of (req_headers req) ''Authorization''
              = (if t = [] then None else Some (''Bearer '' @ t)))
       \<and> (token c = JNull \<longrightarrow> map_of (req_headers req) ''Authorization'' = None)"
proof -
  have h: "map_of (req_headers req) ''Authorization''
           = (if truthy (token c) then Some (''Bearer '' @ format_value env (token c)) else None)"
    using assms
    by (auto simp: get_request_def post_request_def put_request_def patch_request_def
         delete_request_def subscribe_request_def headers_def)
  show ?thesis
    unfolding h by (auto simp: format_value_def)
qed

theorem request_authorization_witness:
  "map_of (req_headers (get_request (mock_env resp_enveloped)
             (init_client ''http://aether.test'' (Some ''test-token-123'')) ''/api/v1/agents'' None))
      ''Authorization'' = Some ''Bearer test-token-123''
   \<and> map_of (req_headers (post_request (mock_env resp_enveloped)
             (init_client ''http://aether.test'' None) ''/api/auth/login'' None))
      ''Authorization'' = None"
proof -
  let ?e = "mock_env resp_enveloped"
  let ?c = "init_client ''http://aether.test'' (Some ''test-token-123'')"
  let ?d = "init_client ''http://aether.test'' None"
  have a: "get_request ?e ?c ''/api/v1/agents'' None
     \<in> {get_request ?e ?c ''/api/v1/agents'' None, post_request ?e ?c ''/api/v1/agents'' None,
        put_request ?e ?c ''/api/v1/agents'' JNull, patch_request ?e ?c ''/api/v1/agents'' JNull,
        delete_request ?e ?c ''/api/v1/agents'',
        subscribe_request ?e (base_url ?c) (token ?c) None}"
    by simp
  have b: "post_request ?e ?d ''/api/auth/login'' None
     \<in> {get_request ?e ?d ''/api/auth/login'' None, post_request ?e ?d ''/api/auth/login'' None,
        put_request ?e ?d ''/api/auth/login'' JNull, patch_request ?e ?d ''/api/auth/login'' JNull,
        delete_request ?e ?d ''/api/auth/login'',
        subscribe_request ?e (base_url ?d) (token ?d) None}"
    by simp
  show ?thesis
    using request_authorization [OF a] request_authorization [OF b]
    by (simp add: init_client_def format_value_def)
qed

text \<open>
  C10, as stated, fails: the login endpoint answers 2xx with the body
  \<open>{"data": {"token": "jwt-2"}}\<close>, which has no \<open>token\<close> key; the normaliser unwraps
  the envelope, and \<open>login\<close> replaces the token \<open>old\<close> by \<open>jwt-2\<close>.
\<close>

theorem login_enveloped_token_counterexample:
  "is_success resp_login_enveloped
   \<and> resp_json resp_login_enveloped = Some (JObject [(''data'', JObject [(''token'', JString ''jwt-2'')])])
   \<and> \<not> py_in ''token'' (JObject [(''data'', JObject [(''token'', JString ''jwt-2'')])])
   \<and> token (init_client ''http://aether.test'' (Some ''old'')) = JString ''old''
   \<and> login (mock_env resp_login_enveloped) (init_client ''http://aether.test'' (Some ''old''))
        ''admin'' ''secret''
      = (Inr (JObject [(''token'', JString ''jwt-2'')]),
         \<lparr>base_url = ''http://aether.test'', token = JString ''jwt-2''\<rparr>)"
  by (simp add: resp_login_enveloped_def is_success_def login_def client_post_def dispatch_def
       mock_env_def handle_response_def init_client_def rstrip_slash_def)

text \<open>
  C10, amended. A \<open>login\<close> that raises, an \<open>AetherError\<close> or anything else, leaves the
  client as it was; a response that is not 2xx makes it raise; and a 2xx login whose
  normalised result (the value of the body's \<open>data\<close> key when the body is a mapping
  with that key, the body otherwise) is not a mapping with a \<open>token\<close> key returns that
  result and leaves the client as it was. The transport helpers and the namespace
  operations built on them return no client at all: they cannot write the token.
\<close>

theorem login_keeps_token:
  "(\<forall>e. fst (login env c u p) = Inl e \<longrightarrow> snd (login env c u p) = c)
   \<and> (\<forall>r. send env (post_request env c ''/api/auth/login'' (Some (login_body u p))) = Inr r
          \<and> \<not> is_success r \<longrightarrow> (\<exists>e. login env c u p = (Inl e, c)))
   \<and> (\<forall>r body. send env (post_request env c ''/api/auth/login'' (Some (login_body u p))) = Inr r
          \<and> is_success r \<and> resp_json r = Some body \<and> \<not> py_in ''token'' (unwrap body)
          \<longrightarrow> login env c u p = (Inr (unwrap body), c))"
proof (intro conjI allI impI)
  fix e
  assume "fst (login env c u p) = Inl e"
  then show "snd (login env c u p) = c"
    by (auto simp: login_def split: sum.splits if_splits)
next
  fix r
  assume a: "send env (post_request env c ''/api/auth/login'' (Some (login_body u p))) = Inr r
          \<and> \<not> is_success r"
  then obtain e where "handle_response r = Inl e"
    using handle_response_raises by blast
  with a show "\<exists>e. login env c u p = (Inl e, c)"
    by (simp add: login_def client_post_def dispatch_def)
next
  fix r body
  assume a: "send env (post_request env c ''/api/auth/login'' (Some (login_body u p))) = Inr r
          \<and> is_success r \<and> resp_json r = Some body \<and> \<not> py_in ''token'' (unwrap body)"
  then have "handle_response r = Inr (unwrap body)"
    using handle_response_ok by blast
  with a show "login env c u p = (Inr (unwrap body), c)"
    by (simp add: login_def client_post_def dispatch_def)
qed

theorem login_keeps_token_witness:
  "fst (login (mock_env resp_unauthorized) (init_client ''http://aether.test'' (Some ''old''))
         ''admin'' ''wrong'')
     = Inl (AetherError (JString ''Invalid token'') (JString ''UNAUTHORIZED'') 401)
   \<and> token (snd (login (mock_env resp_unauthorized) (init_client ''http://aether.test'' (Some ''old''))
         ''admin'' ''wrong'')) = JString ''old''
   \<and> login (mock_env resp_enveloped) (init_client ''http://aether.test'' (Some ''old''))
         ''admin'' ''secret''
     = (Inr (JObject [(''data'', JInt 1), (''items'', JArray [JInt 2])]),
        init_client ''http://aether.test'' (Some ''old''))"
proof -
  let ?c = "init_client ''http://aether.test'' (Some ''old'')"
  have f: "fst (login (mock_env resp_unauthorized) ?c ''admin'' ''wrong'')
     = Inl (AetherError (JString ''Invalid token'') (JString ''UNAUTHORIZED'') 401)"
    by (simp add: login_def client_post_def dispatch_def mock_env_def resp_unauthorized_def
         handle_response_def is_success_def error_field_def py_or_def)
  have "snd (login (mock_env resp_unauthorized) ?c ''admin'' ''wrong'') = ?c"
    using login_keeps_token [of "mock_env resp_unauthorized" ?c "''admin''" "''wrong''"] f
    by blast
  then have t: "token (snd (login (mock_env resp_unauthorized) ?c ''admin'' ''wrong'')) = JString ''old''"
    by (simp add: init_client_def)
  have s: "send (mock_env resp_enveloped)
             (post_request (mock_env resp_enveloped) ?c ''/api/auth/login''
                (Some (login_body ''admin'' ''secret''))) = Inr resp_enveloped
           \<and> is_success resp_enveloped
           \<and> resp_json resp_enveloped
               = Some (JObject [(''data'', JObject [(''data'', JInt 1), (''items'', JArray [JInt 2])]),
                                (''meta'', JNull)])
           \<and> \<not> py_in ''token'' (unwrap (JObject [(''data'', JObject [(''data'', JInt 1), (''items'', JArray [JInt 2])]),
                                (''meta'', JNull)]))"
    by (simp add: mock_env_def resp_enveloped_def is_success_def unwrap_def)
  have "login (mock_env resp_enveloped) ?c ''admin'' ''secret''
      = (Inr (unwrap (JObject [(''data'', JObject [(''data'', JInt 1), (''items'', JArray [JInt 2])]),
                                (''meta'', JNull)])), ?c)"
    using login_keeps_token [of "mock_env resp_enveloped" ?c "''admin''" "''secret''"] s
    by blast
  then show ?thesis using f t by (simp add: unwrap_def)
qed

section \<open>The filesystem namespace: theorems\<close>

lemma byte_nibbles: "(of_char c :: nat) div 16 < 16" "(of_char c :: nat) mod 16 < 16"
proof -
  have "(of_char c :: nat) < 16 * 16" using nat_of_char_less_256 [of c] by simp
  then show "(of_char c :: nat) div 16 < 16" by (rule less_mult_imp_div_less)
  show "(of_char c :: nat) mod 16 < 16" by simp
qed

lemma hex_value_digit: "d < 16 \<Longrightarrow> hex_value (hex_digit d) = Some d"
proof -
  assume "d < 16"
  then have "d \<in> set [0..<16]" by simp
  then show ?thesis
    by (simp add: upt_rec hex_digit_def hex_value_def) (elim disjE; simp)
qed

lemma hex_digit_safe: "d < 16 \<Longrightarrow> hex_digit d \<in> set always_safe"
proof -
  assume "d < 16"
  then have "d \<in> set [0..<16]" by simp
  then show ?thesis
    by (simp add: upt_rec hex_digit_def always_safe_def) (elim disjE; simp)
qed

lemma safe_not_special: "c \<in> set always_safe \<Longrightarrow> c \<noteq> CHR ''%'' \<and> c \<noteq> CHR ''/''"
  by (auto simp: always_safe_def)

lemma unquote_plain: "c \<noteq> CHR ''%'' \<Longrightarrow> unquote (c # s) = c # unquote s"
  by (cases s rule: unquote.cases) simp_all

lemma unquote_percent: "unquote (percent c @ s) = c # unquote s"
proof -
  have "16 * ((of_char c :: nat) div 16) + of_char c mod 16 = of_char c" by simp
  then show ?thesis
    by (simp add: percent_def hex_value_digit [OF byte_nibbles(1)]
         hex_value_digit [OF byte_nibbles(2)])
qed

lemma quote_Cons: "quote (c # p) safe = quote_byte safe c @ quote p safe"
  by (simp add: quote_def)

lemma unquote_quote: "unquote (quote p []) = p"
proof (induction p)
  case Nil
  show ?case by (simp add: quote_def)
next
  case (Cons c p)
  show ?case
  proof (cases "c \<in> set always_safe")
    case True
    then show ?thesis using Cons safe_not_special [OF True]
      by (simp add: quote_Cons quote_byte_def unquote_plain)
  next
    case False
    then show ?thesis using Cons
      by (simp add: quote_Cons quote_byte_def unquote_percent)
  qed
qed

lemma quote_byte_chars: "set (quote_byte [] c) \<subseteq> set always_safe \<union> {CHR ''%''}"
  using hex_digit_safe [OF byte_nibbles(1), of c] hex_digit_safe [OF byte_nibbles(2), of c]
  by (simp add: quote_byte_def percent_def)

lemma quote_chars: "set (quote p []) \<subseteq> set always_safe \<union> {CHR ''%''}"
  using quote_byte_chars by (induction p) (simp_all add: quote_def)

lemma quote_no_slash: "CHR ''/'' \<notin> set (quote p [])"
proof
  assume "CHR ''/'' \<in> set (quote p [])"
  with quote_chars [of p] have "CHR ''/'' \<in> set always_safe" by auto
  then show False by (simp add: always_safe_def)
qed

lemma quote_no_safe:
  "quote p [] = concat (map (\<lambda>ch. if ch \<in> set always_safe then [ch] else percent ch) p)"
  by (simp add: quote_def quote_byte_def cong: map_cong)

text \<open>
  C8. The request that the filesystem operations \<open>read\<close>, \<open>write\<close> and \<open>delete\<close>
  hand to the transport has the path \<open>/api/v1/fs/\<close> followed by the
  percent-encoding of the path argument with no character exempted as safe: every
  byte other than a letter, a digit or one of \<open>_.-~\<close> is written \<open>%XX\<close>. No slash is
  left in the segment, and percent-decoding the segment gives the path back. A server
  that echoes the path it is asked for answers \<open>/api/v1/fs/folder%2Ffile.txt\<close> to all
  three operations on \<open>folder/file.txt\<close>.
\<close>

theorem fs_path_percent_encoded:
  "fs_read env c p
     = (case send env \<lparr>req_method = GET, req_path = ''/api/v1/fs/'' @ quote p [],
                        req_params = None, req_json = None, req_headers = headers env c\<rparr> of
          Inl e \<Rightarrow> Inl e | Inr r \<Rightarrow> handle_response r)
   \<and> fs_write env c p content
     = (case send env \<lparr>req_method = PUT, req_path = ''/api/v1/fs/'' @ quote p [],
                        req_params = None,
                        req_json = Some (JObject [(''content'', JString content)]),
                        req_headers = headers env c\<rparr> of
          Inl e \<Rightarrow> Inl e | Inr r \<Rightarrow> handle_response r)
   \<and> fs_delete env c p
     = (case send env \<lparr>req_method = DELETE, req_path = ''/api/v1/fs/'' @ quote p [],
                        req_params = None, req_json = None, req_headers = headers env c\<rparr> of
          Inl e \<Rightarrow> Inl e | Inr r \<Rightarrow> handle_response r)
   \<and> quote p [] = concat (map (\<lambda>ch. if ch \<in> set always_safe then [ch] else percent ch) p)
   \<and> CHR ''/'' \<notin> set (quote p [])
   \<and> unquote (quote p []) = p"
  using quote_no_slash [of p] unquote_quote [of p] quote_no_safe [of p]
  by (simp add: fs_read_def fs_write_def fs_delete_def fs_path_def client_get_def
       client_put_def client_delete_def dispatch_def get_request_def put_request_def
       delete_request_def)

theorem fs_path_percent_encoded_witness:
  "fs_read echo_env (init_client ''http://aether.test'' None) ''folder/file.txt''
     = Inr (JObject [(''path'', JString ''/api/v1/fs/folder%2Ffile.txt'')])
   \<and> fs_write echo_env (init_client ''http://aether.test'' None) ''folder/file.txt'' ''x''
     = Inr (JObject [(''path'', JString ''/api/v1/fs/folder%2Ffile.txt'')])
   \<and> fs_delete echo_env (init_client ''http://aether.test'' None) ''folder/file.txt''
     = Inr (JObject [(''path'', JString ''/api/v1/fs/folder%2Ffile.txt'')])
   \<and> unquote ''folder%2Ffile.txt'' = ''folder/file.txt''"
proof -
  have q: "quote ''folder/file.txt'' [] = ''folder%2Ffile.txt''"
    by code_simp
  note enc = fs_path_percent_encoded [of echo_env "init_client ''http://aether.test'' None"
      "''folder/file.txt''" "''x''"]
  have r: "fs_read echo_env (init_client ''http://aether.test'' None) ''folder/file.txt''
     = Inr (JObject [(''path'', JString ''/api/v1/fs/folder%2Ffile.txt'')])"
    using enc [THEN conjunct1] unfolding q
    by (simp add: echo_env_def handle_response_def is_success_def)
  have w: "fs_write echo_env (init_client ''http://aether.test'' None) ''folder/file.txt'' ''x''
     = Inr (JObject [(''path'', JString ''/api/v1/fs/folder%2Ffile.txt'')])"
    using enc [THEN conjunct2, THEN conjunct1] unfolding q
    by (simp add: echo_env_def handle_response_def is_success_def)
  have d: "fs_delete echo_env (init_client ''http://aether.test'' None) ''folder/file.txt''
     = Inr (JObject [(''path'', JString ''/api/v1/fs/folder%2Ffile.txt'')])"
    using enc [THEN conjunct2, THEN conjunct2, THEN conjunct1] unfolding q
    by (simp add: echo_env_def handle_response_def is_success_def)
  have u: "unquote (quote ''folder/file.txt'' []) = ''folder/file.txt''"
    using enc by blast
  show ?thesis
    using r w d u unfolding q by simp
qed

end
